theory Spec2Isabelle
  imports Complex_Main "HOL-Library.Sublist"
begin

section \<open>Data model: cells, columns and frames\<close>

text \<open>
  The dashboard script \<^verbatim>\<open>streamlit_app.py\<close> works on pandas data frames. A cell of a
  frame is a text, a number, or one of the three markers pandas treats as missing
  (\<^verbatim>\<open>float('nan')\<close>, \<^verbatim>\<open>None\<close>, \<^verbatim>\<open>pd.NA\<close>). Numbers are modelled as exact rationals:
  the rounding of 64-bit floats is not modelled. A frame is the ordered list of its
  labelled columns; all columns of a frame have the same length, and the labels of a
  frame that \<^verbatim>\<open>pd.read_csv\<close> returns are pairwise different. The pandas operations the
  script calls are modelled as pandas 2 defines them.
\<close>

datatype cell = NaN | PyNone | NA | Str string | Num rat

type_synonym column = "cell list"

type_synonym frame = "(string \<times> column) list"

datatype error = TypeError | KeyError | ReadError

text \<open>\<^verbatim>\<open>pd.isna\<close> on one cell, and \<^verbatim>\<open>Series.dropna()\<close>.\<close>

fun isna :: "cell \<Rightarrow> bool" where
  "isna NaN = True"
| "isna PyNone = True"
| "isna NA = True"
| "isna (Str s) = False"
| "isna (Num r) = False"

fun is_text :: "cell \<Rightarrow> bool" where
  "is_text (Str s) = True"
| "is_text c = False"

definition dropna :: "column \<Rightarrow> column" where
  "dropna col = filter (\<lambda>c. \<not> isna c) col"

text \<open>\<^verbatim>\<open>df.columns\<close>, \<^verbatim>\<open>col in df.columns\<close> with \<^verbatim>\<open>df[col]\<close>, \<^verbatim>\<open>len(df)\<close> and \<^verbatim>\<open>df.empty\<close>
  (true when either axis has length zero).\<close>

definition columns :: "frame \<Rightarrow> string list" where
  "columns df = map fst df"

definition getitem :: "frame \<Rightarrow> string \<Rightarrow> column option" where
  "getitem df col = map_of df col"

definition len :: "frame \<Rightarrow> nat" where
  "len df = (case df of [] \<Rightarrow> 0 | (c, cells) # rest \<Rightarrow> length cells)"

definition empty :: "frame \<Rightarrow> bool" where
  "empty df = (len df = 0 \<or> length (columns df) = 0)"

text \<open>The invariant of a frame: every column has as many cells as the frame has rows.\<close>

definition wf_frame :: "frame \<Rightarrow> bool" where
  "wf_frame df = list_all (\<lambda>(c, cells). length cells = len df) df"

text \<open>\<^verbatim>\<open>Series.replace(to_replace, value)\<close> with two scalars: a cell is replaced when it
  is equal to \<^verbatim>\<open>to_replace\<close> as a whole; no pattern matching takes place.\<close>

definition replace :: "cell \<Rightarrow> cell \<Rightarrow> column \<Rightarrow> column" where
  "replace to_replace v col = map (\<lambda>c. if c = to_replace then v else c) col"

section \<open>The display-safety transform\<close>

text \<open>
  \<^verbatim>\<open>Series.astype(str)\<close> applies Python's \<^verbatim>\<open>str\<close> to every cell: a text stays as it is,
  the missing markers become their names, and a number is printed. How a number is
  printed is the parameter \<open>repr\<close>.
\<close>

fun str_of_cell :: "(rat \<Rightarrow> string) \<Rightarrow> cell \<Rightarrow> string" where
  "str_of_cell repr NaN = ''nan''"
| "str_of_cell repr PyNone = ''None''"
| "str_of_cell repr NA = ''<NA>''"
| "str_of_cell repr (Str s) = s"
| "str_of_cell repr (Num r) = repr r"

definition astype_str :: "(rat \<Rightarrow> string) \<Rightarrow> column \<Rightarrow> column" where
  "astype_str repr col = map (\<lambda>c. Str (str_of_cell repr c)) col"

text \<open>
  \<^verbatim>\<open>make_display_safe(df)\<close>: every column of a copy of the frame is replaced by
  \<^verbatim>\<open>display_df[col].astype(str).replace('nan', '').replace('<NA>', '')\<close>. None of the
  three calls raises on the cells modelled here, so the \<^verbatim>\<open>except: pass\<close> branch is
  never taken.
\<close>

definition display_column :: "(rat \<Rightarrow> string) \<Rightarrow> column \<Rightarrow> column" where
  "display_column repr col =
     replace (Str ''<NA>'') (Str '''') (replace (Str ''nan'') (Str '''') (astype_str repr col))"

definition make_display_safe :: "(rat \<Rightarrow> string) \<Rightarrow> frame \<Rightarrow> frame" where
  "make_display_safe repr df = map (\<lambda>(col, cells). (col, display_column repr cells)) df"





section \<open>Ingestion of an uploaded CSV file\<close>

text \<open>
  \<^verbatim>\<open>str.lower()\<close> on the ASCII letters; the bytes of other characters are left as they
  are, which does not change whether one of the ASCII keywords below occurs.
\<close>

definition lower_char :: "char \<Rightarrow> char" where
  "lower_char c =
     (if (65::nat) \<le> of_char c \<and> of_char c \<le> (90::nat)
      then char_of (of_char c + (32::nat)) else c)"

definition lower :: "string \<Rightarrow> string" where
  "lower s = map lower_char s"

definition numeric_indicators :: "string list" where
  "numeric_indicators =
     [''age'', ''year'', ''egp'', ''days'', ''hours'', ''deliveries'', ''income'',
      ''salary'', ''allowance'']"

text \<open>\<^verbatim>\<open>any(indicator in col_lower for indicator in numeric_indicators)\<close>; Python's
  \<^verbatim>\<open>in\<close> on two strings is the contiguous-sublist test.\<close>

definition is_numeric_name :: "string \<Rightarrow> bool" where
  "is_numeric_name col = list_ex (\<lambda>indicator. sublist indicator (lower col)) numeric_indicators"

text \<open>
  \<^verbatim>\<open>pd.to_numeric(series, errors='coerce')\<close>: each text is parsed on its own, a text
  that does not parse becomes \<^verbatim>\<open>NaN\<close>, and so does every missing marker. Which texts
  parse, and to what number, is the parameter \<open>parse\<close>. The call does not raise, so
  the \<^verbatim>\<open>except: pass\<close> around it is never taken.
\<close>

fun to_numeric_cell :: "(string \<Rightarrow> rat option) \<Rightarrow> cell \<Rightarrow> cell" where
  "to_numeric_cell parse (Str s) = (case parse s of Some r \<Rightarrow> Num r | None \<Rightarrow> NaN)"
| "to_numeric_cell parse (Num r) = Num r"
| "to_numeric_cell parse c = NaN"

definition to_numeric :: "(string \<Rightarrow> rat option) \<Rightarrow> column \<Rightarrow> column" where
  "to_numeric parse col = map (to_numeric_cell parse) col"

text \<open>The first loop of the upload branch:
  \<^verbatim>\<open>for col in df_all.columns: df_all[col] = df_all[col].replace('nan', None)\<close>.\<close>

definition replace_nan :: "frame \<Rightarrow> frame" where
  "replace_nan df = map (\<lambda>(col, cells). (col, replace (Str ''nan'') PyNone cells)) df"

text \<open>The second loop: the columns whose lower-cased label contains an indicator are
  converted, the other columns are left as they are.\<close>

definition coerce_numeric :: "(string \<Rightarrow> rat option) \<Rightarrow> frame \<Rightarrow> frame" where
  "coerce_numeric parse df =
     map (\<lambda>(col, cells). if is_numeric_name col then (col, to_numeric parse cells)
                          else (col, cells)) df"

text \<open>The cleaning of the frame that \<^verbatim>\<open>pd.read_csv(uploaded_file, dtype=str)\<close> returned;
  both loops are skipped for an empty frame.\<close>

definition clean_upload :: "(string \<Rightarrow> rat option) \<Rightarrow> frame \<Rightarrow> frame" where
  "clean_upload parse df = (if \<not> empty df then coerce_numeric parse (replace_nan df) else df)"

text \<open>A parser of unsigned decimal integers, one of the forms \<^verbatim>\<open>pd.to_numeric\<close>
  accepts; it instantiates the parameter \<open>parse\<close> in the examples.\<close>

definition digit_of :: "char \<Rightarrow> nat option" where
  "digit_of c =
     (if (48::nat) \<le> of_char c \<and> of_char c \<le> (57::nat) then Some (of_char c - 48) else None)"

fun digits_acc :: "nat \<Rightarrow> string \<Rightarrow> nat option" where
  "digits_acc acc [] = Some acc"
| "digits_acc acc (c # cs) =
     (case digit_of c of None \<Rightarrow> None | Some d \<Rightarrow> digits_acc (10 * acc + d) cs)"

definition parse_decimal :: "string \<Rightarrow> rat option" where
  "parse_decimal s =
     (if s = [] then None
      else case digits_acc 0 s of None \<Rightarrow> None | Some n \<Rightarrow> Some (of_nat n))"

section \<open>The KPI calculator\<close>

text \<open>A value stored in the \<^verbatim>\<open>kpis\<close> dictionary is a scalar taken from the frame (a
  mean, or the top company) or a count.\<close>

datatype kval = Scalar cell | Count nat

type_synonym kpis = "string \<rightharpoonup> kval"

fun num_of :: "cell \<Rightarrow> rat" where
  "num_of (Num r) = r"
| "num_of c = 0"

fun is_number :: "cell \<Rightarrow> bool" where
  "is_number (Num r) = True"
| "is_number c = False"

text \<open>
  \<^verbatim>\<open>Series.mean()\<close> skips the missing cells. It raises \<^verbatim>\<open>TypeError\<close> when a text is
  among the others, and is \<^verbatim>\<open>NaN\<close> when no cell is left.
\<close>

definition mean :: "column \<Rightarrow> error + cell" where
  "mean col =
     (let valid = dropna col in
      if list_ex is_text valid then Inl TypeError
      else if valid = [] then Inr NaN
      else Inr (Num (sum_list (map num_of valid) / of_nat (length valid))))"

text \<open>\<^verbatim>\<open>Series.nunique()\<close>: the number of different non-missing cells.\<close>

definition nunique :: "column \<Rightarrow> nat" where
  "nunique col = length (remdups (dropna col))"

text \<open>
  \<^verbatim>\<open>Series.mode()\<close>: the non-missing cells that occur most often, each once. pandas
  collects them in the order of their first occurrence and then sorts them; when texts
  and numbers are mixed the sort raises inside pandas and the modes stay unsorted.
\<close>

fun str_le :: "string \<Rightarrow> string \<Rightarrow> bool" where
  "str_le [] t = True"
| "str_le (a # s) [] = False"
| "str_le (a # s) (b # t) =
     (if a = b then str_le s t else (of_char a :: nat) < of_char b)"

fun cell_le :: "cell \<Rightarrow> cell \<Rightarrow> bool" where
  "cell_le (Num a) (Num b) = (a \<le> b)"
| "cell_le (Str s) (Str t) = str_le s t"
| "cell_le c d = True"

fun insort_cell :: "cell \<Rightarrow> column \<Rightarrow> column" where
  "insort_cell c [] = [c]"
| "insort_cell c (d # ds) = (if cell_le c d then c # d # ds else d # insort_cell c ds)"

definition sort_cells :: "column \<Rightarrow> column" where
  "sort_cells col = foldr insort_cell col []"

definition first_occurrences :: "column \<Rightarrow> column" where
  "first_occurrences col = rev (remdups (rev col))"

definition mode :: "column \<Rightarrow> column" where
  "mode col =
     (let valid = dropna col;
          most = fold max (map (\<lambda>c. count_list valid c) valid) 0;
          modes = filter (\<lambda>c. count_list valid c = most) (first_occurrences valid)
      in if list_all is_number modes \<or> list_all is_text modes then sort_cells modes else modes)"

text \<open>The labels \<^verbatim>\<open>calculate_kpis\<close> looks up.\<close>

definition age_col :: string where
  "age_col = ''Age (Years)''"

definition delivery_col :: string where
  "delivery_col = ''Average number of deliveries per day: ______''"

definition success_col :: string where
  "success_col = ''Approximate delivery success rate (orders deliv...''"

definition income_col :: string where
  "income_col = ''Please mention your Fixed Monthly Pay (if any):...''"

definition company_col :: string where
  "company_col = ''Company''"

text \<open>
  One of the four blocks of \<^verbatim>\<open>calculate_kpis\<close> that store a mean and its count:
  \<^verbatim>\<open>
  if col in df.columns:
      valid = df[col].dropna()
      if len(valid) > 0:
          kpis[avg_key] = valid.mean()
          kpis[count_key] = len(valid)
  \<close>
  An exception of \<^verbatim>\<open>mean\<close> leaves the function.
\<close>

definition mean_kpi :: "frame \<Rightarrow> string \<Rightarrow> string \<Rightarrow> string \<Rightarrow> kpis \<Rightarrow> error + kpis" where
  "mean_kpi df col avg_key count_key kpis =
     (case getitem df col of
        None \<Rightarrow> Inr kpis
      | Some cells \<Rightarrow>
          (let valid = dropna cells in
           if length valid > 0 then
             (case mean valid of
                Inl e \<Rightarrow> Inl e
              | Inr m \<Rightarrow> Inr (kpis(avg_key \<mapsto> Scalar m, count_key \<mapsto> Count (length valid))))
           else Inr kpis))"

text \<open>The company block: both keys are stored whenever the column exists, and the
  top company is the text \<^verbatim>\<open>N/A\<close> when the column has no mode.\<close>

definition company_kpi :: "frame \<Rightarrow> kpis \<Rightarrow> kpis" where
  "company_kpi df kpis =
     (case getitem df company_col of
        None \<Rightarrow> kpis
      | Some cells \<Rightarrow>
          kpis(''unique_companies'' \<mapsto> Count (nunique (dropna cells)),
               ''top_company'' \<mapsto>
                 Scalar (case mode cells of [] \<Rightarrow> Str ''N/A'' | m # ms \<Rightarrow> m)))"

text \<open>A column that exists and holds at least one non-missing cell, and a column that
  holds no text (or does not exist).\<close>

definition has_values :: "frame \<Rightarrow> string \<Rightarrow> bool" where
  "has_values df col =
     (case getitem df col of None \<Rightarrow> False | Some cells \<Rightarrow> dropna cells \<noteq> [])"

definition no_text :: "frame \<Rightarrow> string \<Rightarrow> bool" where
  "no_text df col =
     (case getitem df col of None \<Rightarrow> True | Some cells \<Rightarrow> \<not> list_ex is_text cells)"

definition and_then :: "error + 'a \<Rightarrow> ('a \<Rightarrow> error + 'b) \<Rightarrow> error + 'b" where
  "and_then r f = (case r of Inl e \<Rightarrow> Inl e | Inr x \<Rightarrow> f x)"

definition calculate_kpis :: "frame \<Rightarrow> error + kpis" where
  "calculate_kpis df =
     and_then (mean_kpi df age_col ''avg_age'' ''age_count'' Map.empty) (\<lambda>k1.
     and_then (mean_kpi df delivery_col ''avg_deliveries'' ''delivery_count'' k1) (\<lambda>k2.
     and_then (mean_kpi df success_col ''success_rate'' ''success_count'' k2) (\<lambda>k3.
     and_then (mean_kpi df income_col ''avg_income'' ''income_count'' k3) (\<lambda>k4.
     Inr (company_kpi df k4)))))"

text \<open>The keys \<^verbatim>\<open>calculate_kpis\<close> can store.\<close>

definition kpi_keys :: "string list" where
  "kpi_keys = [''avg_age'', ''age_count'', ''avg_deliveries'', ''delivery_count'',
     ''success_rate'', ''success_count'', ''avg_income'', ''income_count'',
     ''unique_companies'', ''top_company'']"

section \<open>The four KPI slots\<close>

text \<open>
  A metric is what \<^verbatim>\<open>st.metric(label, value, delta)\<close> receives. A formatted string is
  kept as its format and the value formatted, so that no float is printed in the model;
  the pictograph in front of each label is left out.
\<close>

datatype shown = Fmt string kval | Plain string

datatype metric = Metric string shown "shown option"

text \<open>\<^verbatim>\<open>kpis[key]\<close>, which raises \<^verbatim>\<open>KeyError\<close> for a key that is not stored.\<close>

definition item :: "kpis \<Rightarrow> string \<Rightarrow> error + kval" where
  "item kpis key = (case kpis key of None \<Rightarrow> Inl KeyError | Some v \<Rightarrow> Inr v)"

text \<open>\<^verbatim>\<open>df.notna().sum().sum()\<close>: the number of non-missing cells of the frame.\<close>

definition notna_total :: "frame \<Rightarrow> nat" where
  "notna_total df = sum_list (map (\<lambda>(col, cells). length (dropna cells)) df)"

definition kpi_col1 :: "frame \<Rightarrow> frame \<Rightarrow> metric" where
  "kpi_col1 df_view df_all =
     Metric ''Total Responses'' (Fmt ''{:,}'' (Count (len df_view)))
       (Some (Fmt ''of {:,} total'' (Count (len df_all))))"

definition kpi_col2 :: "kpis \<Rightarrow> error + metric" where
  "kpi_col2 kpis =
     (if kpis ''avg_age'' \<noteq> None then
        and_then (item kpis ''avg_age'') (\<lambda>v.
        and_then (item kpis ''age_count'') (\<lambda>n.
        Inr (Metric ''Average Age'' (Fmt ''{:.1f} years'' v) (Some (Fmt ''{} respondents'' n)))))
      else Inr (Metric ''Average Age'' (Plain ''No data'') None))"

definition kpi_col3 :: "kpis \<Rightarrow> frame \<Rightarrow> error + metric" where
  "kpi_col3 kpis df_view =
     (if kpis ''avg_deliveries'' \<noteq> None then
        and_then (item kpis ''avg_deliveries'') (\<lambda>v.
        and_then (item kpis ''delivery_count'') (\<lambda>n.
        Inr (Metric ''Avg Deliveries'' (Fmt ''{:.1f}/day'' v) (Some (Fmt ''{} drivers'' n)))))
      else if kpis ''avg_income'' \<noteq> None then
        and_then (item kpis ''avg_income'') (\<lambda>v.
        and_then (item kpis ''income_count'') (\<lambda>n.
        Inr (Metric ''Fixed Monthly Pay'' (Fmt ''{:,.0f} EGP'' v) (Some (Fmt ''{} responses'' n)))))
      else Inr (Metric ''Data Coverage''
                  (Fmt ''{} questions'' (Count (length (columns df_view)))) None))"

definition kpi_col4 :: "kpis \<Rightarrow> frame \<Rightarrow> error + metric" where
  "kpi_col4 kpis df_view =
     (if kpis ''success_rate'' \<noteq> None then
        and_then (item kpis ''success_rate'') (\<lambda>v.
        and_then (item kpis ''success_count'') (\<lambda>n.
        Inr (Metric ''Success Rate'' (Fmt ''{:.1f}%'' v) (Some (Fmt ''{} drivers'' n)))))
      else if kpis ''unique_companies'' \<noteq> None then
        and_then (item kpis ''unique_companies'') (\<lambda>n.
        and_then (item kpis ''top_company'') (\<lambda>t.
        Inr (Metric ''Companies'' (Fmt ''{}'' n) (Some (Fmt ''Top: {}'' t)))))
      else Inr (Metric ''Data Quality''
                  (Fmt ''{:,} answers'' (Count (notna_total df_view))) None))"

text \<open>
  The part of the script from \<^verbatim>\<open>df_view = df_all.copy()\<close> to the fourth slot: the KPIs
  are computed first, so an exception of \<^verbatim>\<open>calculate_kpis\<close> ends the run before any
  slot is shown.
\<close>

record page =
  col1 :: metric
  col2 :: metric
  col3 :: metric
  col4 :: metric

definition dashboard :: "frame \<Rightarrow> error + page" where
  "dashboard df_all =
     (let df_view = df_all in
      and_then (calculate_kpis df_view) (\<lambda>kpis.
      and_then (kpi_col2 kpis) (\<lambda>m2.
      and_then (kpi_col3 kpis df_view) (\<lambda>m3.
      and_then (kpi_col4 kpis df_view) (\<lambda>m4.
      Inr \<lparr>col1 = kpi_col1 df_view df_all, col2 = m2, col3 = m3, col4 = m4\<rparr>)))))"

section \<open>The data-loading part of the script\<close>

text \<open>
  One run of the script reads the radio button, the sample file (when it exists) and the
  uploaded file (when there is one). The two \<^verbatim>\<open>pd.read_csv\<close> calls and the number
  parser of \<^verbatim>\<open>pd.to_numeric\<close> are parameters: a reader maps the content of a file to
  a frame or to the exception it raises.
\<close>

datatype choice = UseSample | UploadOwn

record inputs =
  data_choice :: choice
  sample_file :: "string option"
  uploaded_file :: "(string \<times> string) option"

record library =
  read_csv :: "string \<Rightarrow> error + frame"
  read_csv_str :: "string \<Rightarrow> error + frame"
  parse_number :: "string \<Rightarrow> rat option"

text \<open>The messages the loading part shows, and how a part of the script ends: it goes
  on with a result, it calls \<^verbatim>\<open>st.stop()\<close>, or an exception leaves it.\<close>

datatype message =
    Success_sample nat nat
  | Warning_sample error
  | Info_not_found
  | Error_unsupported
  | Success_upload nat nat
  | Info_please_upload
  | Error_no_data
  | Error_invalid

datatype 'a flow = Next 'a | Stop | Raise error

text \<open>Lines 106 to 124: the sample file. Every exception of the read is caught, and an
  empty result switches to the upload.\<close>

definition load_sample :: "library \<Rightarrow> inputs \<Rightarrow> message list \<times> frame \<times> choice" where
  "load_sample lib inp =
     (case data_choice inp of
        UploadOwn \<Rightarrow> ([], [], UploadOwn)
      | UseSample \<Rightarrow>
          (let (msgs, df) =
                 (case sample_file inp of
                    None \<Rightarrow> ([], [])
                  | Some content \<Rightarrow>
                      (case read_csv lib content of
                         Inl e \<Rightarrow> ([Warning_sample e], [])
                       | Inr d \<Rightarrow>
                           if \<not> empty d
                           then ([Success_sample (len d) (length (columns d))], d)
                           else ([], [])))
           in if empty df then (msgs @ [Info_not_found], df, UploadOwn)
              else (msgs, df, UseSample)))"

text \<open>Lines 126 to 155: the upload. Only a name that ends in \<^verbatim>\<open>.csv\<close> is read; the
  read is not inside a \<^verbatim>\<open>try\<close>, so its exception leaves the script.\<close>

definition load_upload ::
  "library \<Rightarrow> inputs \<Rightarrow> message list \<times> frame \<times> choice \<Rightarrow> message list \<times> frame flow" where
  "load_upload lib inp st =
     (case st of (msgs, df_all, chosen) \<Rightarrow>
        if chosen = UploadOwn \<or> empty df_all then
          (case uploaded_file inp of
             None \<Rightarrow> (msgs @ [Info_please_upload], Stop)
           | Some (name, content) \<Rightarrow>
               if suffix ''.csv'' name then
                 (case read_csv_str lib content of
                    Inl e \<Rightarrow> (msgs, Raise e)
                  | Inr d \<Rightarrow>
                      (let df = clean_upload (parse_number lib) d in
                       (msgs @ (if \<not> empty df
                                then [Success_upload (len df) (length (columns df))]
                                else []),
                        Next df)))
               else
                 (msgs @ [Error_unsupported] @
                    (if \<not> empty df_all
                     then [Success_upload (len df_all) (length (columns df_all))]
                     else []),
                  Next df_all))
        else (msgs, Next df_all))"

definition load_data :: "library \<Rightarrow> inputs \<Rightarrow> message list \<times> frame flow" where
  "load_data lib inp = load_upload lib inp (load_sample lib inp)"

text \<open>\<^verbatim>\<open>str.strip()\<close> on the ASCII white space.\<close>

definition is_space :: "char \<Rightarrow> bool" where
  "is_space c =
     ((9::nat) \<le> of_char c \<and> of_char c \<le> (13::nat)
      \<or> (28::nat) \<le> of_char c \<and> of_char c \<le> (32::nat))"

definition strip :: "string \<Rightarrow> string" where
  "strip s = rev (dropWhile is_space (rev (dropWhile is_space s)))"

text \<open>Lines 157 to 167: the two guards on the loaded frame, then the labels are
  stripped.\<close>

definition guard :: "message list \<Rightarrow> frame \<Rightarrow> message list \<times> frame flow" where
  "guard msgs df_all =
     (if empty df_all then (msgs @ [Error_no_data], Stop)
      else if len df_all = 0 \<or> length (columns df_all) = 0 then (msgs @ [Error_invalid], Stop)
      else (msgs, Next (map (\<lambda>(c, cells). (strip c, cells)) df_all)))"

definition ingest :: "library \<Rightarrow> inputs \<Rightarrow> message list \<times> frame flow" where
  "ingest lib inp =
     (case load_data lib inp of
        (msgs, Next df) \<Rightarrow> guard msgs df
      | (msgs, Stop) \<Rightarrow> (msgs, Stop)
      | (msgs, Raise e) \<Rightarrow> (msgs, Raise e))"

definition run :: "library \<Rightarrow> inputs \<Rightarrow> message list \<times> page flow" where
  "run lib inp =
     (case ingest lib inp of
        (msgs, Next df) \<Rightarrow>
          (case dashboard df of Inl e \<Rightarrow> (msgs, Raise e) | Inr p \<Rightarrow> (msgs, Next p))
      | (msgs, Stop) \<Rightarrow> (msgs, Stop)
      | (msgs, Raise e) \<Rightarrow> (msgs, Raise e))"

section \<open>Frames as objects\<close>

text \<open>
  To say which frame object a function changes, the frames live in a store: an
  address is an index into the list of all frames allocated so far, and a function
  returns the store it leaves behind. \<^verbatim>\<open>df.copy()\<close> allocates a new frame with the
  same cells; \<^verbatim>\<open>make_display_safe\<close> assigns the columns of that copy only;
  \<^verbatim>\<open>calculate_kpis\<close> assigns nothing.
\<close>

type_synonym store = "frame list"

definition copy :: "store \<Rightarrow> nat \<Rightarrow> store \<times> nat" where
  "copy h df = (h @ [h ! df], length h)"

definition make_display_safe_st :: "(rat \<Rightarrow> string) \<Rightarrow> store \<Rightarrow> nat \<Rightarrow> store \<times> nat" where
  "make_display_safe_st repr h df =
     (case copy h df of (h1, display_df) \<Rightarrow>
        (h1[display_df := make_display_safe repr (h1 ! display_df)], display_df))"

definition calculate_kpis_st :: "store \<Rightarrow> nat \<Rightarrow> store \<times> (error + kpis)" where
  "calculate_kpis_st h df = (h, calculate_kpis (h ! df))"

section \<open>Properties of the display-safety transform\<close>

lemma display_column_cells:
  "display_column repr col =
     map (\<lambda>c. if str_of_cell repr c = ''nan'' \<or> str_of_cell repr c = ''<NA>''
               then Str '''' else Str (str_of_cell repr c)) col"
  by (induction col) (auto simp: display_column_def replace_def astype_str_def)



lemma make_display_safe_nth:
  "i < length df \<Longrightarrow>
     make_display_safe repr df ! i = (fst (df ! i), display_column repr (snd (df ! i)))"
  by (simp add: make_display_safe_def case_prod_beta)




section \<open>Properties of the upload cleaning\<close>

lemma replace_nan_nth:
  "i < length df \<Longrightarrow> replace_nan df ! i = (fst (df ! i), replace (Str ''nan'') PyNone (snd (df ! i)))"
  by (simp add: replace_nan_def case_prod_beta)

lemma coerce_numeric_nth:
  "i < length df \<Longrightarrow>
     coerce_numeric parse df ! i =
       (fst (df ! i), if is_numeric_name (fst (df ! i)) then to_numeric parse (snd (df ! i))
                      else snd (df ! i))"
  by (simp add: coerce_numeric_def case_prod_beta)

lemma length_replace_nan: "length (replace_nan df) = length df"
  by (simp add: replace_nan_def)

lemma clean_upload_nth:
  "\<not> empty df \<Longrightarrow> i < length df \<Longrightarrow>
     clean_upload parse df ! i =
       (fst (df ! i),
        if is_numeric_name (fst (df ! i))
        then to_numeric parse (replace (Str ''nan'') PyNone (snd (df ! i)))
        else replace (Str ''nan'') PyNone (snd (df ! i)))"
  by (simp add: clean_upload_def coerce_numeric_nth replace_nan_nth length_replace_nan)

lemma nan_not_in_NA: "sublist ''nan'' s \<Longrightarrow> s \<noteq> ''<NA>''"
  by (auto simp: sublist_code)

text \<open>
  Claim C10. The null replacement of the upload branch and \<^verbatim>\<open>make_display_safe\<close> match
  the token \<^verbatim>\<open>nan\<close> against the whole cell: a cell whose text is exactly \<^verbatim>\<open>nan\<close>
  becomes \<^verbatim>\<open>None\<close> in the replacement (and is missing in the cleaned upload), and
  \<^verbatim>\<open>make_display_safe\<close> renders such a cell as the empty text; a cell whose text
  contains \<^verbatim>\<open>nan\<close> as a proper part is left as it is by both.
\<close>

theorem nan_token_whole_cell:
  assumes "i < length df" and "j < length (snd (df ! i))"
  shows "(snd (df ! i) ! j = Str ''nan'' \<longrightarrow>
            snd (replace_nan df ! i) ! j = PyNone
            \<and> (\<not> empty df \<longrightarrow> isna (snd (clean_upload parse df ! i) ! j))
            \<and> snd (make_display_safe repr df ! i) ! j = Str '''')
         \<and> (\<forall>s. snd (df ! i) ! j = Str s \<and> sublist ''nan'' s \<and> s \<noteq> ''nan'' \<longrightarrow>
            snd (replace_nan df ! i) ! j = Str s
            \<and> snd (make_display_safe repr df ! i) ! j = Str s)"
  using assms nan_not_in_NA
  by (auto simp: replace_nan_nth make_display_safe_nth clean_upload_nth replace_def
        display_column_cells to_numeric_def)

theorem nan_token_whole_cell_witness:
  "snd (replace_nan [(''Company'', [Str ''nan'', Str ''banana''])] ! 0) ! 0 = PyNone
   \<and> isna (snd (clean_upload parse_decimal [(''Company'', [Str ''nan'', Str ''banana''])] ! 0) ! 0)
   \<and> snd (make_display_safe (\<lambda>r. ''0'') [(''Company'', [Str ''nan'', Str ''banana''])] ! 0) ! 0 = Str ''''
   \<and> sublist ''nan'' ''banana''
   \<and> snd (replace_nan [(''Company'', [Str ''nan'', Str ''banana''])] ! 0) ! 1 = Str ''banana''
   \<and> snd (make_display_safe (\<lambda>r. ''0'') [(''Company'', [Str ''nan'', Str ''banana''])] ! 0) ! 1
       = Str ''banana''"
proof -
  let ?df = "[(''Company'', [Str ''nan'', Str ''banana''])]"
  have i: "0 < length ?df" by simp
  have j0: "0 < length (snd (?df ! 0))" by simp
  have j1: "1 < length (snd (?df ! 0))" by simp
  have ne: "\<not> empty ?df" by (simp add: empty_def len_def columns_def)
  have sub: "sublist ''nan'' ''banana''" by (simp add: sublist_code)
  from nan_token_whole_cell [OF i j0, of parse_decimal "\<lambda>r. ''0''"]
       nan_token_whole_cell [OF i j1, of parse_decimal "\<lambda>r. ''0''"] ne sub
  show ?thesis by simp
qed

lemma wf_empty_cells:
  assumes "wf_frame d" "empty d" "i < length d"
  shows "snd (d ! i) = []"
proof -
  from assms(3) have "d \<noteq> []" by auto
  with assms(2) have l: "len d = 0" by (auto simp: empty_def columns_def)
  from assms(1,3) have "length (snd (d ! i)) = len d"
    by (auto simp: wf_frame_def list_all_length case_prod_beta)
  with l show ?thesis by simp
qed

lemma clean_upload_numeric_nth:
  assumes "wf_frame d" "i < length d" "d ! i = (col, cells)" "is_numeric_name col"
  shows "clean_upload parse d ! i =
           (col, to_numeric parse (replace (Str ''nan'') PyNone cells))"
proof (cases "empty d")
  case True
  with assms wf_empty_cells [of d i] have "cells = []" by simp
  with True assms show ?thesis by (simp add: clean_upload_def to_numeric_def replace_def)
next
  case False
  with assms show ?thesis by (simp add: clean_upload_nth)
qed

lemma to_numeric_cell_cases: "is_number (to_numeric_cell parse c) \<or> to_numeric_cell parse c = NaN"
  by (cases c) (auto split: option.splits)

lemma to_numeric_cells:
  "list_all (\<lambda>c. is_number c \<or> c = NaN) (to_numeric parse cells)"
  using to_numeric_cell_cases by (induction cells) (auto simp: to_numeric_def)

lemma columns_clean_upload: "columns (clean_upload parse d) = columns d"
  by (induction d) (auto simp: clean_upload_def coerce_numeric_def replace_nan_def columns_def)

lemma getitem_coerce_numeric:
  "getitem (coerce_numeric parse d) col =
     (case getitem d col of None \<Rightarrow> None
      | Some cells \<Rightarrow> Some (if is_numeric_name col then to_numeric parse cells else cells))"
  by (induction d) (auto simp: getitem_def coerce_numeric_def)

lemma getitem_replace_nan:
  "getitem (replace_nan d) col =
     (case getitem d col of None \<Rightarrow> None
      | Some cells \<Rightarrow> Some (replace (Str ''nan'') PyNone cells))"
  by (induction d) (auto simp: getitem_def replace_nan_def)

lemma age_col_numeric: "is_numeric_name age_col"
  by code_simp

lemma getitem_clean_upload_age:
  assumes "getitem d age_col = Some cells"
  shows "getitem (clean_upload parse d) age_col =
           Some (if empty d then cells else to_numeric parse (replace (Str ''nan'') PyNone cells))"
  using assms age_col_numeric
  by (simp add: clean_upload_def getitem_coerce_numeric getitem_replace_nan)

section \<open>Properties of the KPI calculator\<close>

lemma dropna_idem: "dropna (dropna cells) = dropna cells"
  by (simp add: dropna_def)

lemma text_not_na: "is_text c \<Longrightarrow> \<not> isna c"
  by (cases c) auto

lemma list_ex_text_dropna: "list_ex is_text (dropna cells) = list_ex is_text cells"
  using text_not_na by (auto simp: list_ex_iff dropna_def)

lemma mean_number:
  assumes "mean cells = Inr m" "dropna cells \<noteq> []"
  shows "m = Num (sum_list (map num_of (dropna cells)) / of_nat (length (dropna cells)))"
  using assms by (auto simp: mean_def Let_def split: if_splits)

lemma mean_no_text:
  "\<not> list_ex is_text cells \<Longrightarrow> \<exists>m. mean cells = Inr m"
  by (simp add: mean_def Let_def list_ex_text_dropna)

lemma mean_kpi_absent:
  "\<not> has_values df col \<Longrightarrow> mean_kpi df col a c k = Inr k"
  by (auto simp: mean_kpi_def has_values_def split: option.splits)

lemma mean_kpi_present:
  assumes "has_values df col" "mean_kpi df col a c k = Inr k'"
  shows "\<exists>cells r. getitem df col = Some cells \<and> mean cells = Inr (Num r)
           \<and> k' = k(a \<mapsto> Scalar (Num r), c \<mapsto> Count (length (dropna cells)))"
proof -
  from assms(1) obtain cells where g: "getitem df col = Some cells" and ne: "dropna cells \<noteq> []"
    by (auto simp: has_values_def split: option.splits)
  from assms(2) g ne obtain m where m: "mean (dropna cells) = Inr m"
    and k': "k' = k(a \<mapsto> Scalar m, c \<mapsto> Count (length (dropna cells)))"
    by (auto simp: mean_kpi_def Let_def split: sum.splits)
  from m have m': "mean cells = Inr m" by (simp add: mean_def dropna_idem)
  from mean_number [OF m' ne] g m' k' show ?thesis by auto
qed

lemma mean_kpi_raises:
  "mean_kpi df col a c k = Inl e \<Longrightarrow> e = TypeError \<and> \<not> no_text df col"
  by (auto simp: mean_kpi_def Let_def no_text_def mean_def dropna_idem list_ex_text_dropna
           split: option.splits if_splits sum.splits)

lemma mean_kpi_returns:
  "no_text df col \<Longrightarrow> \<exists>k'. mean_kpi df col a c k = Inr k'"
  by (auto simp: mean_kpi_def Let_def no_text_def mean_def dropna_idem list_ex_text_dropna
           split: option.splits if_splits sum.splits)

lemma mean_kpi_other:
  "mean_kpi df col a c k = Inr k' \<Longrightarrow> key \<noteq> a \<Longrightarrow> key \<noteq> c \<Longrightarrow> k' key = k key"
  by (auto simp: mean_kpi_def Let_def split: option.splits if_splits sum.splits)

lemma mean_kpi_keys:
  assumes "mean_kpi df col a c k = Inr k'"
  shows "(k' a \<noteq> None) = (has_values df col \<or> k a \<noteq> None)"
    and "(k' c \<noteq> None) = (has_values df col \<or> k c \<noteq> None)"
  using assms mean_kpi_present [OF _ assms] mean_kpi_absent [of df col a c k]
  by (cases "has_values df col"; auto)+

lemma company_kpi_other:
  "key \<noteq> ''unique_companies'' \<Longrightarrow> key \<noteq> ''top_company'' \<Longrightarrow> company_kpi df k key = k key"
  by (auto simp: company_kpi_def split: option.splits)

lemma calculate_kpis_steps:
  assumes "calculate_kpis df = Inr k"
  obtains k1 k2 k3 k4 where
    "mean_kpi df age_col ''avg_age'' ''age_count'' Map.empty = Inr k1"
    "mean_kpi df delivery_col ''avg_deliveries'' ''delivery_count'' k1 = Inr k2"
    "mean_kpi df success_col ''success_rate'' ''success_count'' k2 = Inr k3"
    "mean_kpi df income_col ''avg_income'' ''income_count'' k3 = Inr k4"
    "k = company_kpi df k4"
  using assms by (auto simp: calculate_kpis_def and_then_def split: sum.splits)

lemma company_kpi_keys:
  "(company_kpi df k ''unique_companies'' \<noteq> None) = (getitem df company_col \<noteq> None \<or> k ''unique_companies'' \<noteq> None)"
  "(company_kpi df k ''top_company'' \<noteq> None) = (getitem df company_col \<noteq> None \<or> k ''top_company'' \<noteq> None)"
  by (auto simp: company_kpi_def split: option.splits)

lemma company_kpi_no_mode:
  "getitem df company_col = Some cells \<Longrightarrow> mode cells = [] \<Longrightarrow>
     company_kpi df k ''top_company'' = Some (Scalar (Str ''N/A''))"
  by (simp add: company_kpi_def)

lemma calculate_kpis_lookup:
  assumes "calculate_kpis df = Inr k"
  shows "(k ''avg_age'' \<noteq> None) = has_values df age_col"
    and "(k ''age_count'' \<noteq> None) = has_values df age_col"
    and "(k ''avg_deliveries'' \<noteq> None) = has_values df delivery_col"
    and "(k ''delivery_count'' \<noteq> None) = has_values df delivery_col"
    and "(k ''success_rate'' \<noteq> None) = has_values df success_col"
    and "(k ''success_count'' \<noteq> None) = has_values df success_col"
    and "(k ''avg_income'' \<noteq> None) = has_values df income_col"
    and "(k ''income_count'' \<noteq> None) = has_values df income_col"
    and "(k ''unique_companies'' \<noteq> None) = (getitem df company_col \<noteq> None)"
    and "(k ''top_company'' \<noteq> None) = (getitem df company_col \<noteq> None)"
proof -
  from assms obtain k1 k2 k3 k4 where
    s1: "mean_kpi df age_col ''avg_age'' ''age_count'' Map.empty = Inr k1" and
    s2: "mean_kpi df delivery_col ''avg_deliveries'' ''delivery_count'' k1 = Inr k2" and
    s3: "mean_kpi df success_col ''success_rate'' ''success_count'' k2 = Inr k3" and
    s4: "mean_kpi df income_col ''avg_income'' ''income_count'' k3 = Inr k4" and
    k: "k = company_kpi df k4"
    by (rule calculate_kpis_steps)
  show "(k ''avg_age'' \<noteq> None) = has_values df age_col"
    using mean_kpi_keys(1) [OF s1] mean_kpi_other [OF s2, of "''avg_age''"]
      mean_kpi_other [OF s3, of "''avg_age''"] mean_kpi_other [OF s4, of "''avg_age''"]
    by (simp add: k company_kpi_other)
  show "(k ''age_count'' \<noteq> None) = has_values df age_col"
    using mean_kpi_keys(2) [OF s1] mean_kpi_other [OF s2, of "''age_count''"]
      mean_kpi_other [OF s3, of "''age_count''"] mean_kpi_other [OF s4, of "''age_count''"]
    by (simp add: k company_kpi_other)
  show "(k ''avg_deliveries'' \<noteq> None) = has_values df delivery_col"
    using mean_kpi_keys(1) [OF s2] mean_kpi_other [OF s1, of "''avg_deliveries''"]
      mean_kpi_other [OF s3, of "''avg_deliveries''"] mean_kpi_other [OF s4, of "''avg_deliveries''"]
    by (simp add: k company_kpi_other)
  show "(k ''delivery_count'' \<noteq> None) = has_values df delivery_col"
    using mean_kpi_keys(2) [OF s2] mean_kpi_other [OF s1, of "''delivery_count''"]
      mean_kpi_other [OF s3, of "''delivery_count''"] mean_kpi_other [OF s4, of "''delivery_count''"]
    by (simp add: k company_kpi_other)
  show "(k ''success_rate'' \<noteq> None) = has_values df success_col"
    using mean_kpi_keys(1) [OF s3] mean_kpi_other [OF s1, of "''success_rate''"]
      mean_kpi_other [OF s2, of "''success_rate''"] mean_kpi_other [OF s4, of "''success_rate''"]
    by (simp add: k company_kpi_other)
  show "(k ''success_count'' \<noteq> None) = has_values df success_col"
    using mean_kpi_keys(2) [OF s3] mean_kpi_other [OF s1, of "''success_count''"]
      mean_kpi_other [OF s2, of "''success_count''"] mean_kpi_other [OF s4, of "''success_count''"]
    by (simp add: k company_kpi_other)
  show "(k ''avg_income'' \<noteq> None) = has_values df income_col"
    using mean_kpi_keys(1) [OF s4] mean_kpi_other [OF s1, of "''avg_income''"]
      mean_kpi_other [OF s2, of "''avg_income''"] mean_kpi_other [OF s3, of "''avg_income''"]
    by (simp add: k company_kpi_other)
  show "(k ''income_count'' \<noteq> None) = has_values df income_col"
    using mean_kpi_keys(2) [OF s4] mean_kpi_other [OF s1, of "''income_count''"]
      mean_kpi_other [OF s2, of "''income_count''"] mean_kpi_other [OF s3, of "''income_count''"]
    by (simp add: k company_kpi_other)
  show "(k ''unique_companies'' \<noteq> None) = (getitem df company_col \<noteq> None)"
    using mean_kpi_other [OF s1, of "''unique_companies''"] mean_kpi_other [OF s2, of "''unique_companies''"]
      mean_kpi_other [OF s3, of "''unique_companies''"] mean_kpi_other [OF s4, of "''unique_companies''"]
      company_kpi_keys(1) [of df k4]
    by (simp add: k)
  show "(k ''top_company'' \<noteq> None) = (getitem df company_col \<noteq> None)"
    using mean_kpi_other [OF s1, of "''top_company''"] mean_kpi_other [OF s2, of "''top_company''"]
      mean_kpi_other [OF s3, of "''top_company''"] mean_kpi_other [OF s4, of "''top_company''"]
      company_kpi_keys(2) [of df k4]
    by (simp add: k)
qed

lemma calculate_kpis_dom:
  assumes "calculate_kpis df = Inr k" "key \<notin> set kpi_keys"
  shows "k key = None"
proof -
  from assms(1) obtain k1 k2 k3 k4 where
    s1: "mean_kpi df age_col ''avg_age'' ''age_count'' Map.empty = Inr k1" and
    s2: "mean_kpi df delivery_col ''avg_deliveries'' ''delivery_count'' k1 = Inr k2" and
    s3: "mean_kpi df success_col ''success_rate'' ''success_count'' k2 = Inr k3" and
    s4: "mean_kpi df income_col ''avg_income'' ''income_count'' k3 = Inr k4" and
    k: "k = company_kpi df k4"
    by (rule calculate_kpis_steps)
  from assms(2) have ne: "key \<noteq> ''avg_age''" "key \<noteq> ''age_count''" "key \<noteq> ''avg_deliveries''"
    "key \<noteq> ''delivery_count''" "key \<noteq> ''success_rate''" "key \<noteq> ''success_count''"
    "key \<noteq> ''avg_income''" "key \<noteq> ''income_count''" "key \<noteq> ''unique_companies''"
    "key \<noteq> ''top_company''"
    by (auto simp: kpi_keys_def)
  have "k key = k4 key" using ne by (simp add: k company_kpi_other)
  also have "\<dots> = k3 key" using mean_kpi_other [OF s4] ne by blast
  also have "\<dots> = k2 key" using mean_kpi_other [OF s3] ne by blast
  also have "\<dots> = k1 key" using mean_kpi_other [OF s2] ne by blast
  also have "\<dots> = Map.empty key" using mean_kpi_other [OF s1] ne by blast
  finally show ?thesis by simp
qed

lemma calculate_kpis_no_mode:
  assumes "calculate_kpis df = Inr k" "getitem df company_col = Some cells" "mode cells = []"
  shows "k ''top_company'' = Some (Scalar (Str ''N/A''))"
  using assms by (auto elim!: calculate_kpis_steps simp: company_kpi_no_mode)

lemma dropna_all_missing: "list_all isna cells \<Longrightarrow> dropna cells = []"
  by (induction cells) (auto simp: dropna_def)

lemma calculate_kpis_returns:
  assumes "no_text df age_col" "no_text df delivery_col" "no_text df success_col"
    "no_text df income_col"
  shows "\<exists>k. calculate_kpis df = Inr k"
proof -
  obtain k1 where k1: "mean_kpi df age_col ''avg_age'' ''age_count'' Map.empty = Inr k1"
    using mean_kpi_returns [OF assms(1)] by blast
  obtain k2 where k2: "mean_kpi df delivery_col ''avg_deliveries'' ''delivery_count'' k1 = Inr k2"
    using mean_kpi_returns [OF assms(2)] by blast
  obtain k3 where k3: "mean_kpi df success_col ''success_rate'' ''success_count'' k2 = Inr k3"
    using mean_kpi_returns [OF assms(3)] by blast
  obtain k4 where k4: "mean_kpi df income_col ''avg_income'' ''income_count'' k3 = Inr k4"
    using mean_kpi_returns [OF assms(4)] by blast
  show ?thesis by (simp add: calculate_kpis_def and_then_def k1 k2 k3 k4)
qed

lemmas kpi_eval =
  calculate_kpis_def and_then_def mean_kpi_def getitem_def dropna_def mean_def
  company_kpi_def nunique_def mode_def first_occurrences_def sort_cells_def
  age_col_def delivery_col_def success_col_def income_col_def company_col_def Let_def

text \<open>
  Claim C2, as stated, fails: for a frame whose \<^verbatim>\<open>Company\<close> column holds no value the
  column has no mode, and the key \<^verbatim>\<open>top_company\<close> is stored all the same, with the
  text \<^verbatim>\<open>N/A\<close>.
\<close>

theorem top_company_without_mode:
  "calculate_kpis [(''Company'', [NaN])] =
     Inr [''unique_companies'' \<mapsto> Count 0, ''top_company'' \<mapsto> Scalar (Str ''N/A'')]
   \<and> getitem [(''Company'', [NaN])] company_col = Some [NaN]
   \<and> mode [NaN] = []"
  by (simp add: kpi_eval)

text \<open>
  Claim C2, amended. In the mapping \<^verbatim>\<open>calculate_kpis\<close> returns, each of the eight keys
  of a mean and its count is present only if its source column exists and holds a
  non-missing cell; the keys \<^verbatim>\<open>unique_companies\<close> and \<^verbatim>\<open>top_company\<close> are present
  exactly when the \<^verbatim>\<open>Company\<close> column exists, and the top company is \<^verbatim>\<open>N/A\<close> when
  that column has no mode; no other key is stored.
\<close>

theorem kpi_keys_follow_columns:
  assumes "calculate_kpis df = Inr k"
  shows "(k ''avg_age'' \<noteq> None \<longrightarrow> has_values df age_col)
       \<and> (k ''age_count'' \<noteq> None \<longrightarrow> has_values df age_col)
       \<and> (k ''avg_deliveries'' \<noteq> None \<longrightarrow> has_values df delivery_col)
       \<and> (k ''delivery_count'' \<noteq> None \<longrightarrow> has_values df delivery_col)
       \<and> (k ''success_rate'' \<noteq> None \<longrightarrow> has_values df success_col)
       \<and> (k ''success_count'' \<noteq> None \<longrightarrow> has_values df success_col)
       \<and> (k ''avg_income'' \<noteq> None \<longrightarrow> has_values df income_col)
       \<and> (k ''income_count'' \<noteq> None \<longrightarrow> has_values df income_col)
       \<and> (k ''unique_companies'' \<noteq> None) = (getitem df company_col \<noteq> None)
       \<and> (k ''top_company'' \<noteq> None) = (getitem df company_col \<noteq> None)
       \<and> (\<forall>cells. getitem df company_col = Some cells \<and> mode cells = [] \<longrightarrow>
             k ''top_company'' = Some (Scalar (Str ''N/A'')))
       \<and> dom k \<subseteq> set kpi_keys"
proof -
  have "dom k \<subseteq> set kpi_keys"
  proof
    fix key assume "key \<in> dom k"
    then have some: "k key \<noteq> None" by auto
    show "key \<in> set kpi_keys"
    proof (rule ccontr)
      assume "key \<notin> set kpi_keys"
      from calculate_kpis_dom [OF assms this] some show False by simp
    qed
  qed
  then show ?thesis
    using calculate_kpis_lookup [OF assms] calculate_kpis_no_mode [OF assms] by blast
qed

theorem kpi_keys_follow_columns_witness:
  "calculate_kpis [(''Age (Years)'', [Num 30, NaN]), (''Company'', [NaN])] =
     Inr [''avg_age'' \<mapsto> Scalar (Num 30), ''age_count'' \<mapsto> Count 1,
          ''unique_companies'' \<mapsto> Count 0, ''top_company'' \<mapsto> Scalar (Str ''N/A'')]
   \<and> has_values [(''Age (Years)'', [Num 30, NaN]), (''Company'', [NaN])] age_col
   \<and> getitem [(''Age (Years)'', [Num 30, NaN]), (''Company'', [NaN])] company_col \<noteq> None"
proof -
  let ?df = "[(''Age (Years)'', [Num 30, NaN]), (''Company'', [NaN])]"
  let ?k = "[''avg_age'' \<mapsto> Scalar (Num 30), ''age_count'' \<mapsto> Count 1,
          ''unique_companies'' \<mapsto> Count 0, ''top_company'' \<mapsto> Scalar (Str ''N/A'')]"
  have run: "calculate_kpis ?df = Inr ?k"
    by (simp add: kpi_eval)
  from kpi_keys_follow_columns [OF run] run show ?thesis by simp
qed

text \<open>
  Claim C4. When the age column is absent, or exists with all its cells missing, the age
  block of \<^verbatim>\<open>calculate_kpis\<close> raises no error and stores no key, so that
  \<^verbatim>\<open>calculate_kpis\<close> is the computation of its remaining blocks from the empty
  mapping, and every mapping it returns has neither the key \<^verbatim>\<open>avg_age\<close> nor the key
  \<^verbatim>\<open>age_count\<close>: the average age is left out, and is not \<^verbatim>\<open>NaN\<close> or zero.
\<close>

theorem age_key_omitted:
  assumes "getitem df age_col = None
           \<or> (\<exists>cells. getitem df age_col = Some cells \<and> list_all isna cells)"
  shows "mean_kpi df age_col ''avg_age'' ''age_count'' kpis = Inr kpis
       \<and> calculate_kpis df =
           and_then (mean_kpi df delivery_col ''avg_deliveries'' ''delivery_count'' Map.empty)
             (\<lambda>k2.
           and_then (mean_kpi df success_col ''success_rate'' ''success_count'' k2) (\<lambda>k3.
           and_then (mean_kpi df income_col ''avg_income'' ''income_count'' k3) (\<lambda>k4.
           Inr (company_kpi df k4))))
       \<and> (\<forall>k. calculate_kpis df = Inr k \<longrightarrow> k ''avg_age'' = None \<and> k ''age_count'' = None)"
proof -
  have h: "\<not> has_values df age_col"
    using assms by (auto simp: has_values_def dropna_all_missing)
  have a: "mean_kpi df age_col ''avg_age'' ''age_count'' kpis = Inr kpis" for kpis
    using h by (rule mean_kpi_absent)
  have b: "calculate_kpis df =
           and_then (mean_kpi df delivery_col ''avg_deliveries'' ''delivery_count'' Map.empty)
             (\<lambda>k2.
           and_then (mean_kpi df success_col ''success_rate'' ''success_count'' k2) (\<lambda>k3.
           and_then (mean_kpi df income_col ''avg_income'' ''income_count'' k3) (\<lambda>k4.
           Inr (company_kpi df k4))))"
    by (simp add: calculate_kpis_def and_then_def a)
  have c: "k ''avg_age'' = None \<and> k ''age_count'' = None" if "calculate_kpis df = Inr k" for k
    using calculate_kpis_lookup(1,2) [OF that] h by simp
  from a b c show ?thesis by blast
qed

theorem age_key_omitted_witness:
  "getitem [(''Age (Years)'', [NaN, PyNone]), (''Company'', [Str ''A'', Str ''B''])] age_col
     = Some [NaN, PyNone]
   \<and> list_all isna [NaN, PyNone]
   \<and> mean_kpi [(''Age (Years)'', [NaN, PyNone]), (''Company'', [Str ''A'', Str ''B''])]
        age_col ''avg_age'' ''age_count'' Map.empty = Inr Map.empty
   \<and> (\<exists>k. calculate_kpis [(''Age (Years)'', [NaN, PyNone]), (''Company'', [Str ''A'', Str ''B''])]
            = Inr k \<and> k ''avg_age'' = None \<and> k ''age_count'' = None)"
proof -
  let ?df = "[(''Age (Years)'', [NaN, PyNone]), (''Company'', [Str ''A'', Str ''B''])]"
  have g: "getitem ?df age_col = Some [NaN, PyNone]"
    by (simp add: getitem_def age_col_def)
  have m: "list_all isna [NaN, PyNone]" by simp
  have "no_text ?df age_col \<and> no_text ?df delivery_col \<and> no_text ?df success_col
      \<and> no_text ?df income_col"
    by (simp add: no_text_def getitem_def age_col_def delivery_col_def success_col_def
          income_col_def)
  then obtain k where k: "calculate_kpis ?df = Inr k" using calculate_kpis_returns by blast
  from g m have h: "getitem ?df age_col = None
      \<or> (\<exists>cells. getitem ?df age_col = Some cells \<and> list_all isna cells)"
    by blast
  from age_key_omitted [OF h, of Map.empty] g m k show ?thesis by blast
qed

section \<open>The numeric coercion of an upload\<close>

lemma calculate_kpis_age:
  assumes "calculate_kpis df = Inr k"
    and "mean_kpi df age_col ''avg_age'' ''age_count'' Map.empty = Inr k1"
  shows "k ''avg_age'' = k1 ''avg_age'' \<and> k ''age_count'' = k1 ''age_count''"
proof -
  from assms(1) obtain k1' k2 k3 k4 where
    s1: "mean_kpi df age_col ''avg_age'' ''age_count'' Map.empty = Inr k1'" and
    s2: "mean_kpi df delivery_col ''avg_deliveries'' ''delivery_count'' k1' = Inr k2" and
    s3: "mean_kpi df success_col ''success_rate'' ''success_count'' k2 = Inr k3" and
    s4: "mean_kpi df income_col ''avg_income'' ''income_count'' k3 = Inr k4" and
    k: "k = company_kpi df k4"
    by (rule calculate_kpis_steps)
  from s1 assms(2) have e: "k1' = k1" by simp
  have "k ''avg_age'' = k1 ''avg_age''"
    using mean_kpi_other [OF s2, of "''avg_age''"]
      mean_kpi_other [OF s3, of "''avg_age''"] mean_kpi_other [OF s4, of "''avg_age''"]
    by (simp add: k company_kpi_other e)
  moreover have "k ''age_count'' = k1 ''age_count''"
    using mean_kpi_other [OF s2, of "''age_count''"]
      mean_kpi_other [OF s3, of "''age_count''"] mean_kpi_other [OF s4, of "''age_count''"]
    by (simp add: k company_kpi_other e)
  ultimately show ?thesis by simp
qed

lemma getitem_cells_nonempty:
  assumes "wf_frame d" "getitem d col = Some cells" "cells \<noteq> []"
  shows "\<not> empty d"
proof -
  from assms(2) have m: "(col, cells) \<in> set d" by (auto simp: getitem_def dest: map_of_SomeD)
  with assms(1) have "length cells = len d" by (auto simp: wf_frame_def list_all_iff)
  with assms(3) have "len d \<noteq> 0" by (cases cells) auto
  moreover from m have "length (columns d) \<noteq> 0" by (auto simp: columns_def)
  ultimately show ?thesis by (simp add: empty_def)
qed

text \<open>
  Claim C1. In the cleaned upload, every column whose lower-cased label contains a
  numeric indicator is converted cell by cell: a text that parses becomes its number
  and every other cell becomes \<^verbatim>\<open>NaN\<close>, and the frame keeps all its columns. For an age
  column \<^verbatim>\<open>["25", "30", "abc", "40"]\<close> the converted column is
  \<^verbatim>\<open>[25, 30, NaN, 40]\<close>, the age block stores the mean 95/3 with the count 3, and
  every mapping \<^verbatim>\<open>calculate_kpis\<close> returns holds them.
\<close>

theorem upload_numeric_coercion:
  "(wf_frame d \<and> i < length d \<and> d ! i = (col, cells) \<and> is_numeric_name col \<longrightarrow>
      clean_upload parse d ! i = (col, to_numeric parse (replace (Str ''nan'') PyNone cells))
      \<and> list_all (\<lambda>c. is_number c \<or> c = NaN) (snd (clean_upload parse d ! i))
      \<and> (\<forall>j s. j < length cells \<and> cells ! j = Str s \<and> s \<noteq> ''nan'' \<longrightarrow>
            snd (clean_upload parse d ! i) ! j =
              (case parse s of Some r \<Rightarrow> Num r | None \<Rightarrow> NaN)))
   \<and> columns (clean_upload parse d) = columns d
   \<and> (wf_frame d \<and> getitem d age_col = Some [Str ''25'', Str ''30'', Str ''abc'', Str ''40'']
        \<and> parse ''25'' = Some 25 \<and> parse ''30'' = Some 30 \<and> parse ''abc'' = None
        \<and> parse ''40'' = Some 40 \<longrightarrow>
      getitem (clean_upload parse d) age_col = Some [Num 25, Num 30, NaN, Num 40]
      \<and> mean_kpi (clean_upload parse d) age_col ''avg_age'' ''age_count'' Map.empty =
            Inr [''avg_age'' \<mapsto> Scalar (Num (95 / 3)), ''age_count'' \<mapsto> Count 3]
      \<and> (\<forall>k. calculate_kpis (clean_upload parse d) = Inr k \<longrightarrow>
            k ''avg_age'' = Some (Scalar (Num (95 / 3))) \<and> k ''age_count'' = Some (Count 3)))"
proof (intro conjI impI)
  assume a: "wf_frame d \<and> i < length d \<and> d ! i = (col, cells) \<and> is_numeric_name col"
  then show e: "clean_upload parse d ! i =
      (col, to_numeric parse (replace (Str ''nan'') PyNone cells))"
    by (simp add: clean_upload_numeric_nth)
  show "list_all (\<lambda>c. is_number c \<or> c = NaN) (snd (clean_upload parse d ! i))"
    by (simp add: e to_numeric_cells)
  show "\<forall>j s. j < length cells \<and> cells ! j = Str s \<and> s \<noteq> ''nan'' \<longrightarrow>
      snd (clean_upload parse d ! i) ! j = (case parse s of Some r \<Rightarrow> Num r | None \<Rightarrow> NaN)"
    by (simp add: e to_numeric_def replace_def)
next
  show "columns (clean_upload parse d) = columns d"
    by (rule columns_clean_upload)
next
  assume a: "wf_frame d \<and> getitem d age_col = Some [Str ''25'', Str ''30'', Str ''abc'', Str ''40'']
        \<and> parse ''25'' = Some 25 \<and> parse ''30'' = Some 30 \<and> parse ''abc'' = None
        \<and> parse ''40'' = Some 40"
  then have ne: "\<not> empty d" using getitem_cells_nonempty [of d age_col] by simp
  from a ne show g: "getitem (clean_upload parse d) age_col = Some [Num 25, Num 30, NaN, Num 40]"
    by (simp add: getitem_clean_upload_age to_numeric_def replace_def)
  then show m: "mean_kpi (clean_upload parse d) age_col ''avg_age'' ''age_count'' Map.empty =
            Inr [''avg_age'' \<mapsto> Scalar (Num (95 / 3)), ''age_count'' \<mapsto> Count 3]"
    by (simp add: mean_kpi_def dropna_def mean_def eval_nat_numeral)
  show "\<forall>k. calculate_kpis (clean_upload parse d) = Inr k \<longrightarrow>
            k ''avg_age'' = Some (Scalar (Num (95 / 3))) \<and> k ''age_count'' = Some (Count 3)"
    using calculate_kpis_age [OF _ m] by simp
qed

theorem upload_numeric_coercion_witness:
  "is_numeric_name ''Age (Years)''
   \<and> clean_upload parse_decimal
        [(''Age (Years)'', [Str ''25'', Str ''30'', Str ''abc'', Str ''40'']),
         (''Company'', [Str ''A'', Str ''B'', Str ''A'', Str ''C''])] ! 0
       = (''Age (Years)'', [Num 25, Num 30, NaN, Num 40])
   \<and> (\<exists>k. calculate_kpis (clean_upload parse_decimal
        [(''Age (Years)'', [Str ''25'', Str ''30'', Str ''abc'', Str ''40'']),
         (''Company'', [Str ''A'', Str ''B'', Str ''A'', Str ''C''])]) = Inr k
        \<and> k ''avg_age'' = Some (Scalar (Num (95 / 3))) \<and> k ''age_count'' = Some (Count 3))"
proof -
  let ?d = "[(''Age (Years)'', [Str ''25'', Str ''30'', Str ''abc'', Str ''40'']),
         (''Company'', [Str ''A'', Str ''B'', Str ''A'', Str ''C''])]"
  have n: "is_numeric_name ''Age (Years)''" by code_simp
  have w: "wf_frame ?d" by (simp add: wf_frame_def len_def)
  have g: "getitem ?d age_col = Some [Str ''25'', Str ''30'', Str ''abc'', Str ''40'']"
    by (simp add: getitem_def age_col_def)
  have p: "parse_decimal ''25'' = Some 25 \<and> parse_decimal ''30'' = Some 30
      \<and> parse_decimal ''abc'' = None \<and> parse_decimal ''40'' = Some 40"
    by code_simp
  have c: "clean_upload parse_decimal ?d =
      [(''Age (Years)'', [Num 25, Num 30, NaN, Num 40]),
       (''Company'', [Str ''A'', Str ''B'', Str ''A'', Str ''C''])]"
    by code_simp
  have "no_text (clean_upload parse_decimal ?d) age_col
      \<and> no_text (clean_upload parse_decimal ?d) delivery_col
      \<and> no_text (clean_upload parse_decimal ?d) success_col
      \<and> no_text (clean_upload parse_decimal ?d) income_col"
    unfolding c by (simp add: no_text_def getitem_def kpi_eval)
  then obtain k where k: "calculate_kpis (clean_upload parse_decimal ?d) = Inr k"
    using calculate_kpis_returns by blast
  from upload_numeric_coercion [of ?d 0 "''Age (Years)''"
      "[Str ''25'', Str ''30'', Str ''abc'', Str ''40'']" parse_decimal] n w g p k
  show ?thesis by (auto simp: to_numeric_def replace_def)
qed

section \<open>Properties of the script\<close>

lemma kpi_pairs:
  assumes "calculate_kpis df = Inr k"
  shows "(k ''avg_age'' \<noteq> None) = (k ''age_count'' \<noteq> None)"
    and "(k ''avg_deliveries'' \<noteq> None) = (k ''delivery_count'' \<noteq> None)"
    and "(k ''avg_income'' \<noteq> None) = (k ''income_count'' \<noteq> None)"
    and "(k ''success_rate'' \<noteq> None) = (k ''success_count'' \<noteq> None)"
    and "(k ''unique_companies'' \<noteq> None) = (k ''top_company'' \<noteq> None)"
  using calculate_kpis_lookup [OF assms] by simp_all

lemma kpi_cols_return:
  assumes "calculate_kpis df = Inr k"
  shows "\<exists>m2 m3 m4. kpi_col2 k = Inr m2 \<and> kpi_col3 k df = Inr m3 \<and> kpi_col4 k df = Inr m4"
proof -
  have "\<exists>m2. kpi_col2 k = Inr m2"
    using kpi_pairs(1) [OF assms] by (auto simp: kpi_col2_def item_def and_then_def)
  moreover have "\<exists>m3. kpi_col3 k df = Inr m3"
    using kpi_pairs(2,3) [OF assms] by (auto simp: kpi_col3_def item_def and_then_def)
  moreover have "\<exists>m4. kpi_col4 k df = Inr m4"
    using kpi_pairs(4,5) [OF assms] by (auto simp: kpi_col4_def item_def and_then_def)
  ultimately show ?thesis by blast
qed

lemma dashboard_col1:
  "dashboard df = Inr p \<Longrightarrow> col1 p = kpi_col1 df df"
  by (auto simp: dashboard_def and_then_def Let_def split: sum.splits)

lemma dashboard_returns:
  assumes "calculate_kpis df = Inr k"
  shows "\<exists>p. dashboard df = Inr p"
  using kpi_cols_return [OF assms] assms
  by (auto simp: dashboard_def and_then_def Let_def)

lemma len_strip: "len (map (\<lambda>(c, cells). (strip c, cells)) df) = len df"
  by (cases df) (auto simp: len_def)

lemma guard_Next:
  "guard msgs d = (msgs', Next df) \<Longrightarrow>
     msgs' = msgs \<and> \<not> empty d \<and> df = map (\<lambda>(c, cells). (strip c, cells)) d"
  by (auto simp: guard_def split: if_splits)

lemma ingest_Next:
  assumes "ingest lib inp = (msgs, Next df)"
  shows "\<exists>d. load_data lib inp = (msgs, Next d) \<and> \<not> empty d
           \<and> df = map (\<lambda>(c, cells). (strip c, cells)) d"
proof -
  obtain m f where l: "load_data lib inp = (m, f)" by (cases "load_data lib inp")
  show ?thesis
  proof (cases f)
    case (Next d)
    with assms l have "guard m d = (msgs, Next df)" by (simp add: ingest_def)
    from guard_Next [OF this] l Next show ?thesis by simp
  next
    case Stop
    with assms l show ?thesis by (simp add: ingest_def)
  next
    case (Raise e)
    with assms l show ?thesis by (simp add: ingest_def)
  qed
qed

lemma run_Next:
  assumes "run lib inp = (msgs, Next p)"
  shows "\<exists>df. ingest lib inp = (msgs, Next df) \<and> dashboard df = Inr p"
proof -
  obtain m f where l: "ingest lib inp = (m, f)" by (cases "ingest lib inp")
  show ?thesis
  proof (cases f)
    case (Next df)
    with assms l show ?thesis by (auto simp: run_def split: sum.splits)
  next
    case Stop
    with assms l show ?thesis by (simp add: run_def)
  next
    case (Raise e)
    with assms l show ?thesis by (simp add: run_def)
  qed
qed

text \<open>
  Claim C8. The first slot shows the row count of the loaded frame: the metric is
  built from \<^verbatim>\<open>len(df_view)\<close> alone, whatever keys \<^verbatim>\<open>kpis\<close> holds; the dashboard is
  rendered whenever \<^verbatim>\<open>calculate_kpis\<close> returns; and in every run of the script that
  reaches the slots, the count shown is the length of the frame the loading part
  produced.
\<close>

theorem respondent_count_is_row_count:
  "kpi_col1 df df =
     Metric ''Total Responses'' (Fmt ''{:,}'' (Count (len df)))
       (Some (Fmt ''of {:,} total'' (Count (len df))))
   \<and> (\<forall>p. dashboard df = Inr p \<longrightarrow>
         col1 p = Metric ''Total Responses'' (Fmt ''{:,}'' (Count (len df)))
                    (Some (Fmt ''of {:,} total'' (Count (len df)))))
   \<and> (\<forall>k. calculate_kpis df = Inr k \<longrightarrow> (\<exists>p. dashboard df = Inr p))
   \<and> (\<forall>msgs p. run lib inp = (msgs, Next p) \<longrightarrow>
         (\<exists>d. load_data lib inp = (msgs, Next d)
            \<and> col1 p = Metric ''Total Responses'' (Fmt ''{:,}'' (Count (len d)))
                         (Some (Fmt ''of {:,} total'' (Count (len d))))))"
proof (intro conjI allI impI)
  show c: "kpi_col1 df df =
     Metric ''Total Responses'' (Fmt ''{:,}'' (Count (len df)))
       (Some (Fmt ''of {:,} total'' (Count (len df))))"
    by (simp add: kpi_col1_def)
  fix p assume "dashboard df = Inr p"
  from dashboard_col1 [OF this]
  show "col1 p = Metric ''Total Responses'' (Fmt ''{:,}'' (Count (len df)))
                    (Some (Fmt ''of {:,} total'' (Count (len df))))"
    by (simp add: kpi_col1_def)
next
  fix k assume "calculate_kpis df = Inr k"
  then show "\<exists>p. dashboard df = Inr p" by (rule dashboard_returns)
next
  fix msgs p assume "run lib inp = (msgs, Next p)"
  from run_Next [OF this] obtain df' where
    i: "ingest lib inp = (msgs, Next df')" and d: "dashboard df' = Inr p" by blast
  from ingest_Next [OF i] obtain d' where
    l: "load_data lib inp = (msgs, Next d')" and s: "df' = map (\<lambda>(c, cells). (strip c, cells)) d'"
    by blast
  from dashboard_col1 [OF d] s have "col1 p = Metric ''Total Responses'' (Fmt ''{:,}'' (Count (len d')))
                         (Some (Fmt ''of {:,} total'' (Count (len d'))))"
    by (simp add: kpi_col1_def len_strip)
  with l show "\<exists>d. load_data lib inp = (msgs, Next d)
            \<and> col1 p = Metric ''Total Responses'' (Fmt ''{:,}'' (Count (len d)))
                         (Some (Fmt ''of {:,} total'' (Count (len d))))"
    by blast
qed

lemma empty_strip: "empty (map (\<lambda>(c, cells). (strip c, cells)) df) = empty df"
  by (simp add: empty_def len_strip columns_def)

lemma load_sample_empty:
  assumes "load_sample lib inp = (msgs, df, chosen)" "chosen = UploadOwn \<or> empty df"
  shows "df = []"
  using assms
  by (auto simp: load_sample_def Let_def split: choice.splits option.splits sum.splits if_splits)

lemma empty_Nil: "empty []"
  by (simp add: empty_def len_def)

lemma clean_upload_empty: "empty d \<Longrightarrow> clean_upload parse d = d"
  by (simp add: clean_upload_def)

text \<open>
  Claim C6. When the loading part ends with a frame that has no rows or no columns, the
  script shows the no-data error and stops; no run reaches the KPI part with such a
  frame; and an uploaded CSV file whose frame is empty (a header line only) ends the run
  with that error. Nothing in a run is read twice: the script has no loop around the
  reads.
\<close>

theorem empty_frame_halts:
  "(load_data lib inp = (msgs, Next df) \<and> empty df \<longrightarrow>
       ingest lib inp = (msgs @ [Error_no_data], Stop)
       \<and> run lib inp = (msgs @ [Error_no_data], Stop))
   \<and> (\<forall>m d. ingest lib inp = (m, Next d) \<longrightarrow> \<not> empty d)
   \<and> (\<forall>m p. run lib inp = (m, Next p) \<longrightarrow>
         (\<exists>d. load_data lib inp = (m, Next d) \<and> \<not> empty d))
   \<and> (data_choice inp = UploadOwn \<and> uploaded_file inp = Some (name, content)
        \<and> suffix ''.csv'' name \<and> read_csv_str lib content = Inr d0 \<and> empty d0 \<longrightarrow>
       run lib inp = ([Error_no_data], Stop))"
proof (intro conjI allI impI)
  assume a: "load_data lib inp = (msgs, Next df) \<and> empty df"
  then show i: "ingest lib inp = (msgs @ [Error_no_data], Stop)"
    by (simp add: ingest_def guard_def)
  then show "run lib inp = (msgs @ [Error_no_data], Stop)"
    by (simp add: run_def)
next
  fix m d assume "ingest lib inp = (m, Next d)"
  from ingest_Next [OF this] show "\<not> empty d" by (auto simp: empty_strip)
next
  fix m p assume "run lib inp = (m, Next p)"
  from run_Next [OF this] obtain df' where "ingest lib inp = (m, Next df')" by blast
  from ingest_Next [OF this] show "\<exists>d. load_data lib inp = (m, Next d) \<and> \<not> empty d" by blast
next
  assume a: "data_choice inp = UploadOwn \<and> uploaded_file inp = Some (name, content)
        \<and> suffix ''.csv'' name \<and> read_csv_str lib content = Inr d0 \<and> empty d0"
  then have "load_data lib inp = ([], Next d0)"
    by (simp add: load_data_def load_sample_def load_upload_def clean_upload_empty)
  with a have "ingest lib inp = ([Error_no_data], Stop)"
    by (simp add: ingest_def guard_def)
  then show "run lib inp = ([Error_no_data], Stop)" by (simp add: run_def)
qed

lemma load_sample_indep:
  "load_sample (lib\<lparr>read_csv_str := rd, parse_number := pn\<rparr>) (inp\<lparr>uploaded_file := u\<rparr>)
     = load_sample lib inp"
  by (simp add: load_sample_def split: choice.splits option.splits)

lemma load_data_non_csv:
  assumes "uploaded_file inp = Some (name, content)" "\<not> suffix ''.csv'' name"
    and "data_choice inp = UploadOwn \<or> empty (fst (snd (load_sample lib inp)))"
  shows "load_data lib inp = (fst (load_sample lib inp) @ [Error_unsupported], Next [])"
proof -
  obtain msgs df chosen where s: "load_sample lib inp = (msgs, df, chosen)"
    by (cases "load_sample lib inp") auto
  have c: "chosen = UploadOwn \<or> empty df"
    using assms(3) s by (auto simp: load_sample_def split: choice.splits)
  from load_sample_empty [OF s c] have e: "df = []" .
  show ?thesis
    using assms(1,2) by (simp add: load_data_def load_upload_def s e empty_Nil)
qed

lemma run_of_load:
  "load_data lib inp = (msgs, Next []) \<Longrightarrow> run lib inp = (msgs @ [Error_no_data], Stop)"
  by (simp add: run_def ingest_def guard_def empty_Nil)

text \<open>
  Claim C7. When the uploader runs and the name of the uploaded file does not end in
  \<^verbatim>\<open>.csv\<close>, the loading part shows the unsupported-format error and leaves the frame
  empty, the run ends in \<^verbatim>\<open>st.stop()\<close> after the no-data error, and the outcome is the
  same for every content of the file and every CSV reader and number parser: the file is
  not read.
\<close>

theorem non_csv_upload_rejected:
  assumes "uploaded_file inp = Some (name, content)" and "\<not> suffix ''.csv'' name"
    and "data_choice inp = UploadOwn \<or> empty (fst (snd (load_sample lib inp)))"
  shows "load_data lib inp = (fst (load_sample lib inp) @ [Error_unsupported], Next [])
       \<and> run lib inp = (fst (load_sample lib inp) @ [Error_unsupported, Error_no_data], Stop)
       \<and> run (lib\<lparr>read_csv_str := rd, parse_number := pn\<rparr>)
              (inp\<lparr>uploaded_file := Some (name, content')\<rparr>) = run lib inp"
proof -
  let ?lib = "lib\<lparr>read_csv_str := rd, parse_number := pn\<rparr>"
  let ?inp = "inp\<lparr>uploaded_file := Some (name, content')\<rparr>"
  have l: "load_data lib inp = (fst (load_sample lib inp) @ [Error_unsupported], Next [])"
    using assms by (rule load_data_non_csv)
  have s: "load_sample ?lib ?inp = load_sample lib inp" by (rule load_sample_indep)
  have "load_data ?lib ?inp = (fst (load_sample ?lib ?inp) @ [Error_unsupported], Next [])"
    using assms(2,3) by (intro load_data_non_csv [where content = content']) (simp_all add: s)
  then have l': "load_data ?lib ?inp = (fst (load_sample lib inp) @ [Error_unsupported], Next [])"
    by (simp only: s)
  from run_of_load [OF l] run_of_load [OF l'] l show ?thesis by simp
qed

theorem non_csv_upload_rejected_witness:
  "run \<lparr>read_csv = (\<lambda>c. Inl ReadError), read_csv_str = (\<lambda>c. Inr [(''Company'', [Str ''A''])]),
        parse_number = parse_decimal\<rparr>
       \<lparr>data_choice = UploadOwn, sample_file = None,
        uploaded_file = Some (''vans.xlsx'', ''Company,A'')\<rparr>
     = ([Error_unsupported, Error_no_data], Stop)"
proof -
  let ?lib = "\<lparr>read_csv = (\<lambda>c. Inl ReadError),
        read_csv_str = (\<lambda>c. Inr [(''Company'', [Str ''A''])]), parse_number = parse_decimal\<rparr>"
  let ?inp = "\<lparr>data_choice = UploadOwn, sample_file = None,
        uploaded_file = Some (''vans.xlsx'', ''Company,A'')\<rparr>"
  have u: "uploaded_file ?inp = Some (''vans.xlsx'', ''Company,A'')" by simp
  have n: "\<not> suffix ''.csv'' ''vans.xlsx''" by (simp add: suffix_to_prefix)
  have r: "data_choice ?inp = UploadOwn \<or> empty (fst (snd (load_sample ?lib ?inp)))" by simp
  have s: "fst (load_sample ?lib ?inp) = []" by (simp add: load_sample_def)
  from non_csv_upload_rejected [OF u n r] s show ?thesis by simp
qed

theorem empty_frame_halts_witness:
  "run \<lparr>read_csv = (\<lambda>c. Inl ReadError), read_csv_str = (\<lambda>c. Inr [(''Company'', [])]),
        parse_number = parse_decimal\<rparr>
       \<lparr>data_choice = UploadOwn, sample_file = None,
        uploaded_file = Some (''vans.csv'', ''Company'')\<rparr>
     = ([Error_no_data], Stop)"
proof -
  let ?lib = "\<lparr>read_csv = (\<lambda>c. Inl ReadError),
        read_csv_str = (\<lambda>c. Inr [(''Company'', [])]), parse_number = parse_decimal\<rparr>"
  let ?inp = "\<lparr>data_choice = UploadOwn, sample_file = None,
        uploaded_file = Some (''vans.csv'', ''Company'')\<rparr>"
  have h: "data_choice ?inp = UploadOwn \<and> uploaded_file ?inp = Some (''vans.csv'', ''Company'')
        \<and> suffix ''.csv'' ''vans.csv'' \<and> read_csv_str ?lib ''Company'' = Inr [(''Company'', [])]
        \<and> empty [(''Company'', [])]"
    by (simp add: suffix_to_prefix empty_def len_def)
  from empty_frame_halts [of ?lib ?inp "[]" "[]" "''vans.csv''" "''Company''" "[(''Company'', [])]"] h
  show ?thesis by blast
qed

text \<open>
  Claim C9. \<^verbatim>\<open>make_display_safe\<close> returns a frame at a fresh address, leaves its
  argument and every other frame of the store as they were, and the fresh frame is the
  display-safe rendering of the argument; \<^verbatim>\<open>calculate_kpis\<close> leaves the store as it
  was.
\<close>

theorem frames_not_mutated:
  assumes "df < length h"
  shows "snd (make_display_safe_st repr h df) \<noteq> df
       \<and> snd (make_display_safe_st repr h df) = length h
       \<and> fst (make_display_safe_st repr h df) ! df = h ! df
       \<and> take (length h) (fst (make_display_safe_st repr h df)) = h
       \<and> fst (make_display_safe_st repr h df) ! snd (make_display_safe_st repr h df)
           = make_display_safe repr (h ! df)
       \<and> fst (calculate_kpis_st h df) = h
       \<and> snd (calculate_kpis_st h df) = calculate_kpis (h ! df)"
  using assms
  by (simp add: make_display_safe_st_def copy_def calculate_kpis_st_def nth_append)

theorem frames_not_mutated_witness:
  "fst (make_display_safe_st (\<lambda>r. ''0'') [[(''Company'', [NaN, Str ''A''])]] 0) ! 0
     = [(''Company'', [NaN, Str ''A''])]
   \<and> fst (make_display_safe_st (\<lambda>r. ''0'') [[(''Company'', [NaN, Str ''A''])]] 0)
       ! snd (make_display_safe_st (\<lambda>r. ''0'') [[(''Company'', [NaN, Str ''A''])]] 0)
     = [(''Company'', [Str '''', Str ''A''])]
   \<and> snd (make_display_safe_st (\<lambda>r. ''0'') [[(''Company'', [NaN, Str ''A''])]] 0) = 1
   \<and> fst (calculate_kpis_st [[(''Company'', [NaN, Str ''A''])]] 0)
     = [[(''Company'', [NaN, Str ''A''])]]"
proof -
  have l: "0 < length [[(''Company'', [NaN, Str ''A''])]]" by simp
  from frames_not_mutated [OF l, of "\<lambda>r. ''0''"] show ?thesis
    by (auto simp: make_display_safe_def display_column_cells)
qed

section \<open>Properties of the KPI slots\<close>

text \<open>
  Claim C5. For the mapping \<^verbatim>\<open>calculate_kpis\<close> returns, the third slot shows the
  average deliveries when that key is present, otherwise the fixed monthly pay when
  that key is present, otherwise the number of columns; the fourth slot shows the
  success rate when present, otherwise the number of companies when present, otherwise
  the number of non-missing cells.
\<close>

theorem slot_priority_chain:
  assumes "calculate_kpis df = Inr k"
  shows "(k ''avg_deliveries'' \<noteq> None \<longrightarrow>
            (\<exists>v n. k ''avg_deliveries'' = Some v \<and> k ''delivery_count'' = Some n
               \<and> kpi_col3 k df =
                   Inr (Metric ''Avg Deliveries'' (Fmt ''{:.1f}/day'' v)
                          (Some (Fmt ''{} drivers'' n)))))
       \<and> (k ''avg_deliveries'' = None \<and> k ''avg_income'' \<noteq> None \<longrightarrow>
            (\<exists>v n. k ''avg_income'' = Some v \<and> k ''income_count'' = Some n
               \<and> kpi_col3 k df =
                   Inr (Metric ''Fixed Monthly Pay'' (Fmt ''{:,.0f} EGP'' v)
                          (Some (Fmt ''{} responses'' n)))))
       \<and> (k ''avg_deliveries'' = None \<and> k ''avg_income'' = None \<longrightarrow>
            kpi_col3 k df =
              Inr (Metric ''Data Coverage''
                     (Fmt ''{} questions'' (Count (length (columns df)))) None))
       \<and> (k ''success_rate'' \<noteq> None \<longrightarrow>
            (\<exists>v n. k ''success_rate'' = Some v \<and> k ''success_count'' = Some n
               \<and> kpi_col4 k df =
                   Inr (Metric ''Success Rate'' (Fmt ''{:.1f}%'' v)
                          (Some (Fmt ''{} drivers'' n)))))
       \<and> (k ''success_rate'' = None \<and> k ''unique_companies'' \<noteq> None \<longrightarrow>
            (\<exists>n t. k ''unique_companies'' = Some n \<and> k ''top_company'' = Some t
               \<and> kpi_col4 k df =
                   Inr (Metric ''Companies'' (Fmt ''{}'' n) (Some (Fmt ''Top: {}'' t)))))
       \<and> (k ''success_rate'' = None \<and> k ''unique_companies'' = None \<longrightarrow>
            kpi_col4 k df =
              Inr (Metric ''Data Quality''
                     (Fmt ''{:,} answers'' (Count (notna_total df))) None))"
proof -
  have third: "(k ''avg_deliveries'' \<noteq> None \<longrightarrow>
            (\<exists>v n. k ''avg_deliveries'' = Some v \<and> k ''delivery_count'' = Some n
               \<and> kpi_col3 k df =
                   Inr (Metric ''Avg Deliveries'' (Fmt ''{:.1f}/day'' v)
                          (Some (Fmt ''{} drivers'' n)))))
       \<and> (k ''avg_deliveries'' = None \<and> k ''avg_income'' \<noteq> None \<longrightarrow>
            (\<exists>v n. k ''avg_income'' = Some v \<and> k ''income_count'' = Some n
               \<and> kpi_col3 k df =
                   Inr (Metric ''Fixed Monthly Pay'' (Fmt ''{:,.0f} EGP'' v)
                          (Some (Fmt ''{} responses'' n)))))
       \<and> (k ''avg_deliveries'' = None \<and> k ''avg_income'' = None \<longrightarrow>
            kpi_col3 k df =
              Inr (Metric ''Data Coverage''
                     (Fmt ''{} questions'' (Count (length (columns df)))) None))"
    using kpi_pairs(2,3) [OF assms]
    by (auto simp: kpi_col3_def item_def and_then_def)
  have fourth: "(k ''success_rate'' \<noteq> None \<longrightarrow>
            (\<exists>v n. k ''success_rate'' = Some v \<and> k ''success_count'' = Some n
               \<and> kpi_col4 k df =
                   Inr (Metric ''Success Rate'' (Fmt ''{:.1f}%'' v)
                          (Some (Fmt ''{} drivers'' n)))))
       \<and> (k ''success_rate'' = None \<and> k ''unique_companies'' \<noteq> None \<longrightarrow>
            (\<exists>n t. k ''unique_companies'' = Some n \<and> k ''top_company'' = Some t
               \<and> kpi_col4 k df =
                   Inr (Metric ''Companies'' (Fmt ''{}'' n) (Some (Fmt ''Top: {}'' t)))))
       \<and> (k ''success_rate'' = None \<and> k ''unique_companies'' = None \<longrightarrow>
            kpi_col4 k df =
              Inr (Metric ''Data Quality''
                     (Fmt ''{:,} answers'' (Count (notna_total df))) None))"
    using kpi_pairs(4,5) [OF assms]
    by (auto simp: kpi_col4_def item_def and_then_def)
  from third fourth show ?thesis by blast
qed

theorem slot_priority_chain_witness:
  "calculate_kpis [(''Please mention your Fixed Monthly Pay (if any):...'', [Num 3000]),
                   (''Company'', [Str ''A''])]
     = Inr [''avg_income'' \<mapsto> Scalar (Num 3000), ''income_count'' \<mapsto> Count 1,
            ''unique_companies'' \<mapsto> Count 1, ''top_company'' \<mapsto> Scalar (Str ''A'')]
   \<and> kpi_col3 [''avg_income'' \<mapsto> Scalar (Num 3000), ''income_count'' \<mapsto> Count 1,
            ''unique_companies'' \<mapsto> Count 1, ''top_company'' \<mapsto> Scalar (Str ''A'')]
        [(''Please mention your Fixed Monthly Pay (if any):...'', [Num 3000]),
         (''Company'', [Str ''A''])]
     = Inr (Metric ''Fixed Monthly Pay'' (Fmt ''{:,.0f} EGP'' (Scalar (Num 3000)))
              (Some (Fmt ''{} responses'' (Count 1))))
   \<and> kpi_col4 [''avg_income'' \<mapsto> Scalar (Num 3000), ''income_count'' \<mapsto> Count 1,
            ''unique_companies'' \<mapsto> Count 1, ''top_company'' \<mapsto> Scalar (Str ''A'')]
        [(''Please mention your Fixed Monthly Pay (if any):...'', [Num 3000]),
         (''Company'', [Str ''A''])]
     = Inr (Metric ''Companies'' (Fmt ''{}'' (Count 1))
              (Some (Fmt ''Top: {}'' (Scalar (Str ''A'')))))"
proof -
  let ?df = "[(''Please mention your Fixed Monthly Pay (if any):...'', [Num 3000]),
                   (''Company'', [Str ''A''])]"
  let ?k = "[''avg_income'' \<mapsto> Scalar (Num 3000), ''income_count'' \<mapsto> Count 1,
            ''unique_companies'' \<mapsto> Count 1, ''top_company'' \<mapsto> Scalar (Str ''A'')]"
  have run: "calculate_kpis ?df = Inr ?k"
    by (simp add: kpi_eval)
  from slot_priority_chain [OF run] run show ?thesis by simp
qed

theorem respondent_count_is_row_count_witness:
  "\<exists>p. run \<lparr>read_csv = (\<lambda>c. Inl ReadError),
             read_csv_str = (\<lambda>c. Inr [(''Company'', [Str ''A'', Str ''B''])]),
             parse_number = parse_decimal\<rparr>
            \<lparr>data_choice = UploadOwn, sample_file = None,
             uploaded_file = Some (''vans.csv'', ''Company,A,B'')\<rparr>
          = ([Success_upload 2 1], Next p)
      \<and> col1 p = Metric ''Total Responses'' (Fmt ''{:,}'' (Count 2))
                    (Some (Fmt ''of {:,} total'' (Count 2)))"
proof -
  let ?d = "[(''Company'', [Str ''A'', Str ''B''])]"
  let ?lib = "\<lparr>read_csv = (\<lambda>c. Inl ReadError), read_csv_str = (\<lambda>c. Inr ?d),
             parse_number = parse_decimal\<rparr>"
  let ?inp = "\<lparr>data_choice = UploadOwn, sample_file = None,
             uploaded_file = Some (''vans.csv'', ''Company,A,B'')\<rparr>"
  have c: "clean_upload parse_decimal ?d = ?d" by code_simp
  have s: "strip ''Company'' = ''Company''" by code_simp
  have ld: "load_data ?lib ?inp = ([Success_upload 2 1], Next ?d)"
    by (simp add: load_data_def load_sample_def load_upload_def c suffix_to_prefix
          empty_def len_def columns_def)
  have ing: "ingest ?lib ?inp = ([Success_upload 2 1], Next ?d)"
    by (simp add: ingest_def ld guard_def s empty_def len_def columns_def)
  have "no_text ?d age_col \<and> no_text ?d delivery_col \<and> no_text ?d success_col
      \<and> no_text ?d income_col"
    by (simp add: no_text_def getitem_def kpi_eval)
  then obtain k where "calculate_kpis ?d = Inr k" using calculate_kpis_returns by blast
  from dashboard_returns [OF this] obtain p where p: "dashboard ?d = Inr p" by blast
  have r: "run ?lib ?inp = ([Success_upload 2 1], Next p)"
    by (simp add: run_def ing p)
  from respondent_count_is_row_count [of ?d ?lib ?inp] r ld
  have "col1 p = Metric ''Total Responses'' (Fmt ''{:,}'' (Count (len ?d)))
                    (Some (Fmt ''of {:,} total'' (Count (len ?d))))"
    by auto
  with r show ?thesis by (auto simp: len_def)
qed

end
